theory Spec2Isabelle
  imports Main "HOL-Library.Word"
begin

unbundle bit_operations_syntax

section \<open>Machine types and platform constants\<close>

text \<open>
  The target is 64-bit Fuchsia: pointers, \<open>uintptr_t\<close>, \<open>size_t\<close> and \<open>uint64_t\<close> are
  64-bit words; \<open>int\<close> and \<open>zx_status_t\<close> are 32-bit words read as two's complement
  by \<open>sint\<close>; \<open>zx_handle_t\<close> and the flag words are unsigned 32-bit words. A pointer
  is its address; the null pointer is address 0.
\<close>

type_synonym ptr = "64 word"
type_synonym c_int = "32 word"
type_synonym zx_status_t = "32 word"
type_synonym zx_handle_t = "32 word"

definition nullptr :: ptr where
  "nullptr = 0"

text \<open>
  Modelled from the spec: the Zircon, fdio and libc headers that declare the constants
  below are not among the sources. The spec names the three protections read, write and
  execute and the two open rights read and execute; the values are the ones of the
  platform headers.
\<close>

definition ZX_OK :: zx_status_t where
  "ZX_OK = 0"

definition ZX_VM_PERM_READ :: "32 word" where
  "ZX_VM_PERM_READ = 1"

definition ZX_VM_PERM_WRITE :: "32 word" where
  "ZX_VM_PERM_WRITE = 2"

definition ZX_VM_PERM_EXECUTE :: "32 word" where
  "ZX_VM_PERM_EXECUTE = 4"

definition OPEN_RIGHT_READABLE :: "32 word" where
  "OPEN_RIGHT_READABLE = 1"

definition OPEN_RIGHT_EXECUTABLE :: "32 word" where
  "OPEN_RIGHT_EXECUTABLE = 8"

definition AT_FDCWD :: c_int where
  "AT_FDCWD = - 100"

section \<open>Data\<close>

text \<open>
  \<open>fuchsia::mem::Buffer\<close>: a VMO handle and a size in bytes. The field \<open>size\<close> is
  named \<open>size_b\<close> here, because \<open>size\<close> is a constant of HOL.
\<close>

record Buffer =
  vmo :: zx_handle_t
  size_b :: "64 word"

text \<open>
  The members \<open>address_\<close>, \<open>size_\<close>, \<open>handle_\<close>, ... of the two classes carry the
  suffix \<open>_m\<close>: a name of HOL cannot end with an underscore.
\<close>

record MappedResource =
  address_m :: ptr
  size_m :: "64 word"

record ElfSnapshot =
  handle_m :: ptr
  vm_data_m :: ptr
  vm_instrs_m :: ptr
  isolate_data_m :: ptr
  isolate_instrs_m :: ptr

text \<open>
  Modelled from the spec: \<open>mapped_resource.h\<close> and the FIDL binding of
  \<open>fuchsia::mem::Buffer\<close> are not among the sources. A default-constructed
  \<open>MappedResource\<close> has a null address and size zero; a default-constructed
  \<open>ElfSnapshot\<close> has its loader handle unset (and its region pointers with it); a
  default-constructed buffer has the invalid handle and size zero.
\<close>

definition default_Buffer :: Buffer where
  "default_Buffer = \<lparr>vmo = 0, size_b = 0\<rparr>"

definition default_MappedResource :: MappedResource where
  "default_MappedResource = \<lparr>address_m = nullptr, size_m = 0\<rparr>"

definition default_ElfSnapshot :: ElfSnapshot where
  "default_ElfSnapshot =
     \<lparr>handle_m = nullptr, vm_data_m = nullptr, vm_instrs_m = nullptr,
      isolate_data_m = nullptr, isolate_instrs_m = nullptr\<rparr>"

section \<open>The platform: external calls and their trace\<close>

text \<open>
  Every call that leaves the file is recorded as an event, with its arguments and what it
  gave back. The trace of events is the state the code threads through: the functions
  below take the trace so far and return the extended one.

  A log call (\<open>FX_LOG\<close>, \<open>FX_LOGF\<close>) is recorded with its format string, without
  the formatted arguments. The tracing macro \<open>TRACE_DURATION\<close> and the destructors of
  local objects (the handle of the local buffer of \<open>LoadFromNamespace\<close>) are left out:
  nothing below depends on them.
\<close>

datatype event =
    Ev_fdio_ns_opendir ptr c_int
  | Ev_VmoFromFilename string bool Buffer
  | Ev_VmoFromFilenameAt c_int string bool Buffer
  | Ev_close c_int
  | Ev_replace_as_executable zx_handle_t zx_status_t zx_handle_t
  | Ev_vmar_map "64 word" zx_handle_t "64 word" "64 word" "32 word" zx_status_t ptr
  | Ev_vmar_unmap ptr "64 word"
  | Ev_fdio_open_fd_at c_int string "32 word" zx_status_t c_int
  | Ev_Dart_LoadELF_Fd c_int "64 word" ElfSnapshot
  | Ev_Dart_UnloadELF ptr
  | Ev_FX_LOG string

text \<open>
  The external routines are parameters of the model. Each one sees the trace so far (so
  its answer may depend on everything that happened before) and its arguments, and
  gives back its return value together with what it leaves in its out-parameters:

  \<^item> \<open>fdio_ns_opendir\<close>: the descriptor, negative on failure;
  \<^item> \<open>VmoFromFilename\<close>, \<open>VmoFromFilenameAt\<close> (of \<open>vmo.h\<close>, not among the sources):
    the boolean result and the buffer behind the out-pointer after the call, given the
    buffer before it;
  \<^item> \<open>replace_as_executable\<close>: the status and the handle left in the buffer;
  \<^item> \<open>vmar_map\<close>: the status and the address left in \<open>addr\<close>;
  \<^item> \<open>fdio_open_fd_at\<close>: the status and the value of \<open>fd\<close> after the call (\<open>fd\<close> is -1
    before it);
  \<^item> \<open>Dart_LoadELF_Fd\<close>: given the values of the four region members before the call,
    the returned loader handle (as \<open>handle_m\<close>) and the values of the four members
    after it.
\<close>

record platform =
  fdio_ns_opendir :: "event list \<Rightarrow> ptr \<Rightarrow> c_int"
  VmoFromFilename :: "event list \<Rightarrow> string \<Rightarrow> Buffer \<Rightarrow> bool \<times> Buffer"
  VmoFromFilenameAt :: "event list \<Rightarrow> c_int \<Rightarrow> string \<Rightarrow> Buffer \<Rightarrow> bool \<times> Buffer"
  replace_as_executable :: "event list \<Rightarrow> zx_handle_t \<Rightarrow> zx_status_t \<times> zx_handle_t"
  vmar_map ::
    "event list \<Rightarrow> 64 word \<Rightarrow> zx_handle_t \<Rightarrow> 64 word \<Rightarrow> 64 word \<Rightarrow> 32 word
      \<Rightarrow> zx_status_t \<times> ptr"
  fdio_open_fd_at :: "event list \<Rightarrow> c_int \<Rightarrow> string \<Rightarrow> 32 word \<Rightarrow> zx_status_t \<times> c_int"
  Dart_LoadELF_Fd ::
    "event list \<Rightarrow> c_int \<Rightarrow> 64 word \<Rightarrow> ptr \<Rightarrow> ptr \<Rightarrow> ptr \<Rightarrow> ptr \<Rightarrow> ElfSnapshot"

text \<open>The events a call added to the trace \<open>t\<close> it started from, given the trace it
  returned.\<close>

definition emitted :: "event list \<Rightarrow> event list \<Rightarrow> event list" where
  "emitted t t' = drop (length t) t'"

fun is_vmar_map :: "event \<Rightarrow> bool" where
  "is_vmar_map (Ev_vmar_map vo h off len fl st a) = True"
| "is_vmar_map _ = False"

text \<open>A mapping request whose protection flags have the write bit set.\<close>

fun requests_write :: "event \<Rightarrow> bool" where
  "requests_write (Ev_vmar_map vo h off len fl st a) = (fl AND ZX_VM_PERM_WRITE \<noteq> 0)"
| "requests_write _ = False"

fun is_Dart_UnloadELF :: "event \<Rightarrow> bool" where
  "is_Dart_UnloadELF (Ev_Dart_UnloadELF h) = True"
| "is_Dart_UnloadELF _ = False"

fun is_close :: "event \<Rightarrow> bool" where
  "is_close (Ev_close d) = True"
| "is_close _ = False"

text \<open>A call either returns a value or aborts the process.\<close>

datatype 'a outcome = Aborted | Returned 'a

section \<open>Strings\<close>

text \<open>
  \<open>std::string::operator[]\<close>: the character at a position below the length, and the
  null character at the position equal to the length (undefined behaviour beyond it;
  the code only reads position 0).
\<close>

definition string_at :: "string \<Rightarrow> nat \<Rightarrow> char" where
  "string_at s i = (if i < length s then s ! i else CHR 0x00)"

text \<open>\<open>std::string::c_str\<close> read as a C string: the characters before the first null.\<close>

definition c_str :: "string \<Rightarrow> string" where
  "c_str s = takeWhile (\<lambda>c. c \<noteq> CHR 0x00) s"

section \<open>MappedResource\<close>

text \<open>
  Modelled from the spec: \<open>dart_utils::Check\<close> of \<open>inlines.h\<close> is not among the
  sources. The spec calls the check of the path a fatal assertion that aborts: \<open>Check\<close>
  returns when its condition holds and aborts the process when it does not.
\<close>

definition Check :: "bool \<Rightarrow> unit outcome" where
  "Check condition = (if condition then Returned () else Aborted)"

text \<open>Lines 56 to 70 of \<open>OpenVmo\<close>: the grant of execute rights, which both branches of
  the acquisition reach.\<close>

definition OpenVmo_executable ::
  "platform \<Rightarrow> Buffer \<Rightarrow> bool \<Rightarrow> event list \<Rightarrow> (bool \<times> Buffer) \<times> event list" where
  "OpenVmo_executable P resource_vmo executable t =
     (if executable then
        (case replace_as_executable P t (vmo resource_vmo) of
           (status, h) \<Rightarrow>
             let t1 = t @ [Ev_replace_as_executable (vmo resource_vmo) status h];
                 b = resource_vmo\<lparr>vmo := h\<rparr>
             in if status \<noteq> ZX_OK
                then ((False, b), t1 @ [Ev_FX_LOG ''Failed to make VMO executable: %s''])
                else ((True, b), t1))
      else ((True, resource_vmo), t))"

definition OpenVmo ::
  "platform \<Rightarrow> Buffer \<Rightarrow> ptr \<Rightarrow> string \<Rightarrow> bool \<Rightarrow> event list
    \<Rightarrow> (bool \<times> Buffer) outcome \<times> event list" where
  "OpenVmo P resource_vmo namespc path executable t =
     (case Check (string_at path 0 \<noteq> CHR ''/'') of
        Aborted \<Rightarrow> (Aborted, t)
      | Returned _ \<Rightarrow>
          if namespc = nullptr then
            (case VmoFromFilename P t path resource_vmo of
               (ok, b) \<Rightarrow>
                 let t1 = t @ [Ev_VmoFromFilename path ok b]
                 in if \<not> ok then (Returned (False, b), t1)
                    else (case OpenVmo_executable P b executable t1 of
                            (r, t2) \<Rightarrow> (Returned r, t2)))
          else
            let root_dir = fdio_ns_opendir P t namespc;
                t1 = t @ [Ev_fdio_ns_opendir namespc root_dir]
            in if sint root_dir < 0
               then (Returned (False, resource_vmo),
                     t1 @ [Ev_FX_LOG ''Failed to open namespace directory''])
               else
                 (case VmoFromFilenameAt P t1 root_dir path resource_vmo of
                    (result, b) \<Rightarrow>
                      let t2 = t1 @ [Ev_VmoFromFilenameAt root_dir path result b];
                          t3 = t2 @ [Ev_close root_dir]
                      in if \<not> result then (Returned (result, b), t3)
                         else (case OpenVmo_executable P b executable t3 of
                                 (r, t4) \<Rightarrow> (Returned r, t4))))"

definition LoadFromVmo ::
  "platform \<Rightarrow> string \<Rightarrow> Buffer \<Rightarrow> MappedResource \<Rightarrow> bool \<Rightarrow> event list
    \<Rightarrow> (bool \<times> MappedResource) \<times> event list" where
  "LoadFromVmo P path resource_vmo resource executable t =
     (if size_b resource_vmo = 0 then ((True, resource), t)
      else
        let flags = (if executable then ZX_VM_PERM_READ OR ZX_VM_PERM_EXECUTE
                     else ZX_VM_PERM_READ)
        in (case vmar_map P t 0 (vmo resource_vmo) 0 (size_b resource_vmo) flags of
              (status, addr) \<Rightarrow>
                let t1 = t @ [Ev_vmar_map 0 (vmo resource_vmo) 0 (size_b resource_vmo)
                                flags status addr]
                in if status \<noteq> ZX_OK
                   then ((False, resource), t1 @ [Ev_FX_LOG ''Failed to map: %s''])
                   else ((True, resource\<lparr>address_m := addr,
                                         size_m := size_b resource_vmo\<rparr>), t1)))"

text \<open>\<open>a && b\<close>: \<open>LoadFromVmo\<close> runs only when \<open>OpenVmo\<close> returned true.\<close>

definition LoadFromNamespace ::
  "platform \<Rightarrow> ptr \<Rightarrow> string \<Rightarrow> MappedResource \<Rightarrow> bool \<Rightarrow> event list
    \<Rightarrow> (bool \<times> MappedResource) outcome \<times> event list" where
  "LoadFromNamespace P namespc path resource executable t =
     (case OpenVmo P default_Buffer namespc path executable t of
        (Aborted, t1) \<Rightarrow> (Aborted, t1)
      | (Returned (ok, resource_vmo), t1) \<Rightarrow>
          if ok then
            (case LoadFromVmo P path resource_vmo resource executable t1 of
               (r, t2) \<Rightarrow> (Returned r, t2))
          else (Returned (False, resource), t1))"

text \<open>The destructor \<open>~MappedResource\<close>.\<close>

definition MappedResource_dtor ::
  "MappedResource \<Rightarrow> event list \<Rightarrow> MappedResource \<times> event list" where
  "MappedResource_dtor this t =
     (if address_m this \<noteq> nullptr then
        (this\<lparr>address_m := nullptr, size_m := 0\<rparr>,
         t @ [Ev_vmar_unmap (address_m this) (size_m this)])
      else (this, t))"

section \<open>ElfSnapshot\<close>

definition OpenFdExec :: "platform \<Rightarrow> string \<Rightarrow> c_int \<Rightarrow> event list \<Rightarrow> c_int \<times> event list" where
  "OpenFdExec P path dirfd t =
     (let rights = OPEN_RIGHT_READABLE OR OPEN_RIGHT_EXECUTABLE
      in (case fdio_open_fd_at P t dirfd (c_str path) rights of
            (result, fd) \<Rightarrow>
              let t1 = t @ [Ev_fdio_open_fd_at dirfd (c_str path) rights result fd]
              in if result \<noteq> ZX_OK
                 then (- 1, t1 @ [Ev_FX_LOG ''fdio_open_fd_at(%s) failed: %s''])
                 else (fd, t1)))"

text \<open>The three overloads of \<open>ElfSnapshot::Load\<close>, from the bottom layer up:
  \<open>Load(int fd)\<close>, \<open>Load(int dirfd, path)\<close> and \<open>Load(fdio_ns_t* namespc, path)\<close>.\<close>

definition Load_fd ::
  "platform \<Rightarrow> c_int \<Rightarrow> ElfSnapshot \<Rightarrow> event list \<Rightarrow> (bool \<times> ElfSnapshot) \<times> event list" where
  "Load_fd P fd this t =
     (let this' = Dart_LoadELF_Fd P t fd 0 (vm_data_m this) (vm_instrs_m this)
                    (isolate_data_m this) (isolate_instrs_m this);
          t1 = t @ [Ev_Dart_LoadELF_Fd fd 0 this']
      in if handle_m this' = nullptr
         then ((False, this'), t1 @ [Ev_FX_LOG ''Failed load ELF: %s''])
         else ((True, this'), t1))"

definition Load_dirfd ::
  "platform \<Rightarrow> c_int \<Rightarrow> string \<Rightarrow> ElfSnapshot \<Rightarrow> event list
    \<Rightarrow> (bool \<times> ElfSnapshot) \<times> event list" where
  "Load_dirfd P dirfd path this t =
     (case OpenFdExec P path dirfd t of
        (fd, t1) \<Rightarrow>
          if sint fd < 0
          then ((False, this), t1 @ [Ev_FX_LOG ''Failed to open VMO for %s from dir.''])
          else Load_fd P fd this t1)"

definition Load_namespc ::
  "platform \<Rightarrow> ptr \<Rightarrow> string \<Rightarrow> ElfSnapshot \<Rightarrow> event list
    \<Rightarrow> (bool \<times> ElfSnapshot) \<times> event list" where
  "Load_namespc P namespc path this t =
     (if namespc = nullptr then Load_dirfd P AT_FDCWD path this t
      else
        let root_dir = fdio_ns_opendir P t namespc;
            t1 = t @ [Ev_fdio_ns_opendir namespc root_dir]
        in if sint root_dir < 0
           then ((False, this), t1 @ [Ev_FX_LOG ''Failed to open namespace directory''])
           else Load_dirfd P root_dir path this t1)"

text \<open>The destructor \<open>~ElfSnapshot\<close>.\<close>

definition ElfSnapshot_dtor :: "ElfSnapshot \<Rightarrow> event list \<Rightarrow> ElfSnapshot \<times> event list" where
  "ElfSnapshot_dtor this t = (this, t @ [Ev_Dart_UnloadELF (handle_m this)])"

text \<open>
  The outcome \<open>res\<close> of a load on the instance \<open>this\<close> stores the result of the loader:
  the last call of the load was \<open>Dart_LoadELF_Fd\<close> on some descriptor, and the handle and
  the region members of the instance are what that call, made on the trace before it
  and the region members of \<open>this\<close>, gave back.
\<close>

definition stores_loader_result ::
  "platform \<Rightarrow> ElfSnapshot \<Rightarrow> (bool \<times> ElfSnapshot) \<times> event list \<Rightarrow> bool" where
  "stores_loader_result P this res =
     (\<exists>fd. snd res \<noteq> [] \<and>
        last (snd res) = Ev_Dart_LoadELF_Fd fd 0 (snd (fst res)) \<and>
        snd (fst res) =
          Dart_LoadELF_Fd P (butlast (snd res)) fd 0 (vm_data_m this) (vm_instrs_m this)
            (isolate_data_m this) (isolate_instrs_m this))"

section \<open>Example platforms\<close>

text \<open>
  Concrete platforms on which the theorems below are instantiated. On
  \<open>working_platform\<close> every external call succeeds: the namespace opens as descriptor 3,
  every file is a buffer of 10 bytes behind handle 7, the grant of execute rights gives
  the next handle, every mapping lands at address 0x1000, every file opens as descriptor
  4 and the ELF loader gives handle 0x5000 and four distinct regions. The other
  platforms differ from it in one call each.
\<close>

definition working_platform :: platform where
  "working_platform =
     \<lparr>fdio_ns_opendir = (\<lambda>t namespc. 3),
      VmoFromFilename = (\<lambda>t path b. (True, \<lparr>vmo = 7, size_b = 10\<rparr>)),
      VmoFromFilenameAt = (\<lambda>t dirfd path b. (True, \<lparr>vmo = 7, size_b = 10\<rparr>)),
      replace_as_executable = (\<lambda>t h. (0, h + 1)),
      vmar_map = (\<lambda>t vmar_offset h vmo_offset len flags. (0, 0x1000)),
      fdio_open_fd_at = (\<lambda>t dirfd path rights. (0, 4)),
      Dart_LoadELF_Fd = (\<lambda>t fd file_offset vd vi isd isi.
         \<lparr>handle_m = 0x5000, vm_data_m = 0x6000, vm_instrs_m = 0x7000,
          isolate_data_m = 0x8000, isolate_instrs_m = 0x9000\<rparr>)\<rparr>"

text \<open>The grant of execute rights is denied (\<open>ZX_ERR_ACCESS_DENIED\<close>, -30) and leaves the
  invalid handle.\<close>

definition no_execute_platform :: platform where
  "no_execute_platform = working_platform\<lparr>replace_as_executable := (\<lambda>t h. (- 30, 0))\<rparr>"

text \<open>The mapping fails (\<open>ZX_ERR_NO_MEMORY\<close>, -4).\<close>

definition no_map_platform :: platform where
  "no_map_platform =
     working_platform\<lparr>vmar_map := (\<lambda>t vmar_offset h vmo_offset len flags. (- 4, 0))\<rparr>"

text \<open>Every file is empty.\<close>

definition empty_file_platform :: platform where
  "empty_file_platform =
     working_platform
       \<lparr>VmoFromFilename := (\<lambda>t path b. (True, \<lparr>vmo = 7, size_b = 0\<rparr>)),
        VmoFromFilenameAt := (\<lambda>t dirfd path b. (True, \<lparr>vmo = 7, size_b = 0\<rparr>))\<rparr>"

text \<open>The ELF loader rejects every file: it returns the null handle and writes none of
  the four region members.\<close>

definition corrupt_elf_platform :: platform where
  "corrupt_elf_platform =
     working_platform\<lparr>Dart_LoadELF_Fd := (\<lambda>t fd file_offset vd vi isd isi.
        \<lparr>handle_m = nullptr, vm_data_m = vd, vm_instrs_m = vi,
         isolate_data_m = isd, isolate_instrs_m = isi\<rparr>)\<rparr>"

section \<open>Evaluation and trace lemmas\<close>

lemmas model_defs =
  LoadFromNamespace_def OpenVmo_def OpenVmo_executable_def LoadFromVmo_def Check_def
  Load_namespc_def Load_dirfd_def Load_fd_def OpenFdExec_def ElfSnapshot_dtor_def
  MappedResource_dtor_def string_at_def c_str_def Let_def

lemmas value_defs =
  working_platform_def no_execute_platform_def no_map_platform_def
  empty_file_platform_def corrupt_elf_platform_def default_Buffer_def
  default_MappedResource_def default_ElfSnapshot_def nullptr_def ZX_OK_def AT_FDCWD_def
  ZX_VM_PERM_READ_def ZX_VM_PERM_WRITE_def ZX_VM_PERM_EXECUTE_def
  OPEN_RIGHT_READABLE_def OPEN_RIGHT_EXECUTABLE_def

lemma emitted_append [simp]: "emitted t (t @ es) = es"
  by (simp add: emitted_def)

lemma emitted_self [simp]: "emitted t t = []"
  by (simp add: emitted_def)

lemma emitted_Nil [simp]: "emitted [] t = t"
  by (simp add: emitted_def)

text \<open>Every function only appends to the trace.\<close>

lemma OpenVmo_executable_extends:
  "\<exists>es. snd (OpenVmo_executable P b executable t) = t @ es"
  by (simp add: OpenVmo_executable_def Let_def split: prod.splits)

lemma LoadFromVmo_extends:
  "\<exists>es. snd (LoadFromVmo P path b resource executable t) = t @ es"
  by (simp add: LoadFromVmo_def Let_def split: prod.splits)

lemma Load_fd_extends: "\<exists>es. snd (Load_fd P fd this t) = t @ es"
  by (simp add: Load_fd_def Let_def)

lemma OpenFdExec_extends: "\<exists>es. snd (OpenFdExec P path dirfd t) = t @ es"
  by (simp add: OpenFdExec_def Let_def split: prod.splits)

lemma Load_dirfd_extends: "\<exists>es. snd (Load_dirfd P dirfd path this t) = t @ es"
proof -
  obtain fd t1 where o: "OpenFdExec P path dirfd t = (fd, t1)"
    by (cases "OpenFdExec P path dirfd t")
  obtain es1 where e1: "t1 = t @ es1"
    using OpenFdExec_extends [of P path dirfd t] o by auto
  obtain es2 where e2: "snd (Load_fd P fd this t1) = t1 @ es2"
    using Load_fd_extends by blast
  show ?thesis
    using o e1 e2 by (simp add: Load_dirfd_def)
qed

section \<open>MappedResource: the path check\<close>

text \<open>
  The acquisition of \<open>MappedResource\<close> aborts on a root-anchored path before any
  external call: the trace is the one it started from.
\<close>

lemma OpenVmo_root_anchored_aborts:
  "OpenVmo P b namespc (CHR ''/'' # rest) executable t = (Aborted, t)"
  by (simp add: OpenVmo_def Check_def string_at_def)

lemma LoadFromNamespace_root_anchored_aborts:
  "LoadFromNamespace P namespc (CHR ''/'' # rest) resource executable t = (Aborted, t)"
  by (simp add: LoadFromNamespace_def OpenVmo_root_anchored_aborts)

text \<open>
  C1. Claim: every load entry point that takes a namespace and a path rejects a path
  that begins with \<open>/\<close> before any directory open, buffer acquisition or descriptor open.
  \<open>MappedResource::LoadFromNamespace\<close> does (the two lemmas above), but
  \<open>ElfSnapshot::Load\<close> has no such check: on the root-anchored path \<open>/lib/app.so\<close> it
  opens the namespace directory, opens the file below it and loads it.
\<close>

theorem Load_namespc_root_anchored_not_rejected:
  "Load_namespc working_platform 0x10 ''/lib/app.so'' default_ElfSnapshot [] =
     ((True, \<lparr>handle_m = 0x5000, vm_data_m = 0x6000, vm_instrs_m = 0x7000,
              isolate_data_m = 0x8000, isolate_instrs_m = 0x9000\<rparr>),
      [Ev_fdio_ns_opendir 0x10 3,
       Ev_fdio_open_fd_at 3 ''/lib/app.so'' 9 0 4,
       Ev_Dart_LoadELF_Fd 4 0
         \<lparr>handle_m = 0x5000, vm_data_m = 0x6000, vm_instrs_m = 0x7000,
          isolate_data_m = 0x8000, isolate_instrs_m = 0x9000\<rparr>])"
  by (simp add: model_defs value_defs)

text \<open>
  C9. For the empty path the check passes: position 0 of the empty string is the null
  character, which is not \<open>/\<close>. \<open>OpenVmo\<close> does not abort and goes on to the
  acquisition: without a namespace its first call is \<open>VmoFromFilename\<close> on the empty
  path; with a namespace it opens the namespace directory and, when that gives a
  descriptor, calls \<open>VmoFromFilenameAt\<close> on that descriptor and the empty path.
\<close>

theorem OpenVmo_empty_path_passes_check:
  "string_at [] 0 = CHR 0x00 \<and>
   Check (string_at [] 0 \<noteq> CHR ''/'') = Returned () \<and>
   fst (OpenVmo P b namespc [] executable t) \<noteq> Aborted \<and>
   (namespc = nullptr \<longrightarrow>
      take 1 (emitted t (snd (OpenVmo P b namespc [] executable t))) =
        [Ev_VmoFromFilename [] (fst (VmoFromFilename P t [] b))
           (snd (VmoFromFilename P t [] b))]) \<and>
   (namespc \<noteq> nullptr \<and> \<not> sint (fdio_ns_opendir P t namespc) < 0 \<longrightarrow>
      (let root_dir = fdio_ns_opendir P t namespc;
           t1 = t @ [Ev_fdio_ns_opendir namespc root_dir]
       in take 2 (emitted t (snd (OpenVmo P b namespc [] executable t))) =
            [Ev_fdio_ns_opendir namespc root_dir,
             Ev_VmoFromFilenameAt root_dir []
               (fst (VmoFromFilenameAt P t1 root_dir [] b))
               (snd (VmoFromFilenameAt P t1 root_dir [] b))]))"
proof -
  have c: "Check (string_at [] 0 \<noteq> CHR ''/'') = Returned ()"
    by (simp add: Check_def string_at_def)
  have a: "fst (OpenVmo P b namespc [] executable t) \<noteq> Aborted"
    by (simp add: OpenVmo_def c Let_def split: prod.splits)
  have n: "take 1 (emitted t (snd (OpenVmo P b namespc [] executable t))) =
        [Ev_VmoFromFilename [] (fst (VmoFromFilename P t [] b))
           (snd (VmoFromFilename P t [] b))]" if "namespc = nullptr"
  proof (cases "VmoFromFilename P t [] b")
    case (Pair ok b')
    obtain es where "snd (OpenVmo_executable P b' executable
        (t @ [Ev_VmoFromFilename [] ok b'])) = (t @ [Ev_VmoFromFilename [] ok b']) @ es"
      using OpenVmo_executable_extends by blast
    then show ?thesis
      using that Pair by (auto simp: OpenVmo_def c Let_def split: prod.splits)
  qed
  have s: "(let root_dir = fdio_ns_opendir P t namespc;
           t1 = t @ [Ev_fdio_ns_opendir namespc root_dir]
       in take 2 (emitted t (snd (OpenVmo P b namespc [] executable t))) =
            [Ev_fdio_ns_opendir namespc root_dir,
             Ev_VmoFromFilenameAt root_dir []
               (fst (VmoFromFilenameAt P t1 root_dir [] b))
               (snd (VmoFromFilenameAt P t1 root_dir [] b))])"
    if ns: "namespc \<noteq> nullptr" and d: "\<not> sint (fdio_ns_opendir P t namespc) < 0"
  proof -
    define root_dir where "root_dir = fdio_ns_opendir P t namespc"
    define t1 where "t1 = t @ [Ev_fdio_ns_opendir namespc root_dir]"
    obtain result b' where v: "VmoFromFilenameAt P t1 root_dir [] b = (result, b')"
      by (cases "VmoFromFilenameAt P t1 root_dir [] b")
    define t3 where "t3 = t1 @ [Ev_VmoFromFilenameAt root_dir [] result b', Ev_close root_dir]"
    obtain es where e: "snd (OpenVmo_executable P b' executable t3) = t3 @ es"
      using OpenVmo_executable_extends by blast
    have "snd (OpenVmo P b namespc [] executable t) =
            (if \<not> result then t3 else snd (OpenVmo_executable P b' executable t3))"
      using ns d v
      by (simp add: OpenVmo_def c Let_def root_dir_def [symmetric] t1_def [symmetric] t3_def
            split: prod.splits)
    then have "take 2 (emitted t (snd (OpenVmo P b namespc [] executable t))) =
            [Ev_fdio_ns_opendir namespc root_dir, Ev_VmoFromFilenameAt root_dir [] result b']"
      using e by (cases result) (auto simp: t3_def t1_def)
    then show ?thesis
      using v by (simp add: Let_def root_dir_def [symmetric] t1_def [symmetric])
  qed
  show ?thesis
    using c a n s by (simp add: string_at_def)
qed

theorem OpenVmo_empty_path_passes_check_witness:
  "(0x10 :: ptr) \<noteq> nullptr \<and> \<not> sint (fdio_ns_opendir working_platform [] 0x10) < 0 \<and>
   OpenVmo working_platform default_Buffer 0x10 [] False [] =
     (Returned (True, \<lparr>vmo = 7, size_b = 10\<rparr>),
      [Ev_fdio_ns_opendir 0x10 3,
       Ev_VmoFromFilenameAt 3 [] True \<lparr>vmo = 7, size_b = 10\<rparr>,
       Ev_close 3]) \<and>
   OpenVmo working_platform default_Buffer nullptr [] False [] =
     (Returned (True, \<lparr>vmo = 7, size_b = 10\<rparr>),
      [Ev_VmoFromFilename [] True \<lparr>vmo = 7, size_b = 10\<rparr>])"
  using OpenVmo_empty_path_passes_check [of working_platform default_Buffer "0x10" False "[]"]
    OpenVmo_empty_path_passes_check [of working_platform default_Buffer nullptr False "[]"]
  by (simp add: model_defs value_defs)

section \<open>MappedResource: acquisition and mapping\<close>

text \<open>
  C2. When \<open>LoadFromNamespace\<close> is called with the executable flag set and the grant of
  execute rights (\<open>replace_as_executable\<close>) made by this call fails, the load returns
  false, leaves the resource as it was and requests no mapping: there is no fallback to
  a mapping without execute rights.
\<close>

theorem LoadFromNamespace_grant_failure:
  assumes "LoadFromNamespace P namespc path resource True t = (out, t')"
      and "Ev_replace_as_executable h status h' \<in> set (emitted t t')"
      and "status \<noteq> ZX_OK"
  shows "out = Returned (False, resource) \<and> (\<forall>e \<in> set (emitted t t'). \<not> is_vmar_map e)"
  using assms
  by (auto simp: LoadFromNamespace_def OpenVmo_def OpenVmo_executable_def LoadFromVmo_def
        Check_def Let_def
      split: if_splits prod.splits outcome.splits)

theorem LoadFromNamespace_grant_failure_witness:
  "LoadFromNamespace no_execute_platform 0x10 ''lib/app.so'' default_MappedResource True [] =
     (Returned (False, default_MappedResource),
      [Ev_fdio_ns_opendir 0x10 3,
       Ev_VmoFromFilenameAt 3 ''lib/app.so'' True \<lparr>vmo = 7, size_b = 10\<rparr>,
       Ev_close 3,
       Ev_replace_as_executable 7 (- 30) 0,
       Ev_FX_LOG ''Failed to make VMO executable: %s'']) \<and>
   (- 30 :: zx_status_t) \<noteq> ZX_OK \<and>
   filter is_vmar_map
     (emitted [] (snd (LoadFromNamespace no_execute_platform 0x10 ''lib/app.so''
        default_MappedResource True []))) = []"
proof -
  let ?t' = "[Ev_fdio_ns_opendir 0x10 3,
       Ev_VmoFromFilenameAt 3 ''lib/app.so'' True \<lparr>vmo = 7, size_b = 10\<rparr>,
       Ev_close 3,
       Ev_replace_as_executable 7 (- 30) 0,
       Ev_FX_LOG ''Failed to make VMO executable: %s'']"
  have run: "LoadFromNamespace no_execute_platform 0x10 ''lib/app.so''
               default_MappedResource True [] =
             (Returned (False, default_MappedResource), ?t')"
    by (simp add: model_defs value_defs)
  have ev: "Ev_replace_as_executable 7 (- 30) 0 \<in> set (emitted [] ?t')"
    by simp
  have st: "(- 30 :: zx_status_t) \<noteq> ZX_OK"
    by (simp add: ZX_OK_def)
  show ?thesis
    using LoadFromNamespace_grant_failure [OF run ev st] run st by simp
qed

text \<open>
  The acquisition of \<open>MappedResource\<close> closes the directory descriptor it opened from
  the namespace, whatever the lookup gave.
\<close>

lemma OpenVmo_closes_root_dir:
  assumes "OpenVmo P b namespc path executable t = (out, t')"
      and "Ev_fdio_ns_opendir namespc root_dir \<in> set (emitted t t')"
      and "\<not> sint root_dir < 0"
  shows "Ev_close root_dir \<in> set (emitted t t')"
  using assms
  by (auto simp: OpenVmo_def OpenVmo_executable_def Check_def Let_def
      split: if_splits prod.splits outcome.splits)

text \<open>
  C4. Claim: a directory descriptor opened from a namespace is closed before the load
  returns, on every path. \<open>OpenVmo\<close> does so (the lemma above), but
  \<open>ElfSnapshot::Load\<close> never closes the descriptor it opened: in this run descriptor 3
  is opened from the namespace and the run, which succeeds, has no \<open>close\<close> at all.
\<close>

theorem Load_namespc_leaves_root_dir_open:
  "snd (Load_namespc working_platform 0x10 ''lib/app.so'' default_ElfSnapshot []) =
     [Ev_fdio_ns_opendir 0x10 3,
      Ev_fdio_open_fd_at 3 ''lib/app.so'' 9 0 4,
      Ev_Dart_LoadELF_Fd 4 0
        \<lparr>handle_m = 0x5000, vm_data_m = 0x6000, vm_instrs_m = 0x7000,
         isolate_data_m = 0x8000, isolate_instrs_m = 0x9000\<rparr>] \<and>
   filter is_close
     (snd (Load_namespc working_platform 0x10 ''lib/app.so'' default_ElfSnapshot [])) = []"
  by (simp add: model_defs value_defs)

text \<open>No layer of \<open>ElfSnapshot::Load\<close> closes anything, on any platform.\<close>

lemma Load_fd_never_closes:
  "\<exists>es. snd (Load_fd P fd this t) = t @ es \<and> filter is_close es = []"
  by (simp add: Load_fd_def Let_def)

lemma OpenFdExec_never_closes:
  "\<exists>es. snd (OpenFdExec P path dirfd t) = t @ es \<and> filter is_close es = []"
  by (simp add: OpenFdExec_def Let_def split: prod.splits)

lemma Load_dirfd_never_closes:
  "\<exists>es. snd (Load_dirfd P dirfd path this t) = t @ es \<and> filter is_close es = []"
proof -
  obtain fd t1 where o: "OpenFdExec P path dirfd t = (fd, t1)"
    by (cases "OpenFdExec P path dirfd t")
  obtain es1 where e1: "t1 = t @ es1" "filter is_close es1 = []"
    using OpenFdExec_never_closes [of P path dirfd t] o by auto
  obtain es2 where e2: "snd (Load_fd P fd this t1) = t1 @ es2" "filter is_close es2 = []"
    using Load_fd_never_closes by blast
  show ?thesis
    using o e1 e2 by (simp add: Load_dirfd_def)
qed

lemma Load_namespc_never_closes:
  "\<exists>es. snd (Load_namespc P namespc path this t) = t @ es \<and> filter is_close es = []"
proof (cases "namespc = nullptr")
  case True
  then show ?thesis
    using Load_dirfd_never_closes [of P AT_FDCWD path this t] by (simp add: Load_namespc_def)
next
  case False
  define root_dir where "root_dir = fdio_ns_opendir P t namespc"
  define t1 where "t1 = t @ [Ev_fdio_ns_opendir namespc root_dir]"
  obtain es where e: "snd (Load_dirfd P root_dir path this t1) = t1 @ es"
      "filter is_close es = []"
    using Load_dirfd_never_closes by blast
  show ?thesis
    using False e
    by (simp add: Load_namespc_def Let_def root_dir_def [symmetric] t1_def [symmetric])
      (simp add: t1_def)
qed

text \<open>
  C5. Claim: with a buffer of size zero \<open>LoadFromVmo\<close> returns true without mapping, and
  the resulting resource has a null address and size zero. The call returns true
  without mapping, but it does not touch the resource: a resource that was mapped at
  0x1000 with size 10 before the call still is afterwards.
\<close>

theorem LoadFromVmo_zero_size_counterexample:
  "size_b \<lparr>vmo = 7, size_b = 0\<rparr> = 0 \<and>
   \<not> (address_m (snd (fst (LoadFromVmo working_platform ''data/empty.bin''
          \<lparr>vmo = 7, size_b = 0\<rparr> \<lparr>address_m = 0x1000, size_m = 10\<rparr> False []))) = nullptr \<and>
      size_m (snd (fst (LoadFromVmo working_platform ''data/empty.bin''
          \<lparr>vmo = 7, size_b = 0\<rparr> \<lparr>address_m = 0x1000, size_m = 10\<rparr> False []))) = 0)"
  by (simp add: LoadFromVmo_def nullptr_def)

text \<open>
  C5, as amended. With a buffer of size zero \<open>LoadFromVmo\<close> returns true, makes no
  external call and leaves the resource as it was; so does \<open>LoadFromNamespace\<close> once
  its acquisition has succeeded with such a buffer, and the acquisition requests no
  mapping. A resource that had a null address and size zero before the call has them
  after it.
\<close>

theorem LoadFromVmo_zero_size_noop:
  assumes "size_b resource_vmo = 0"
  shows "LoadFromVmo P path resource_vmo resource executable t = ((True, resource), t) \<and>
     (OpenVmo P default_Buffer namespc path executable t = (Returned (True, resource_vmo), t1)
        \<longrightarrow> LoadFromNamespace P namespc path resource executable t =
              (Returned (True, resource), t1) \<and>
            (\<forall>e \<in> set (emitted t t1). \<not> is_vmar_map e)) \<and>
     (address_m resource = nullptr \<and> size_m resource = 0 \<longrightarrow>
        address_m (snd (fst (LoadFromVmo P path resource_vmo resource executable t))) = nullptr \<and>
        size_m (snd (fst (LoadFromVmo P path resource_vmo resource executable t))) = 0)"
proof -
  have z: "LoadFromVmo P path resource_vmo resource executable t = ((True, resource), t)"
    using assms by (simp add: LoadFromVmo_def)
  have l: "LoadFromNamespace P namespc path resource executable t =
             (Returned (True, resource), t1)"
    if "OpenVmo P default_Buffer namespc path executable t = (Returned (True, resource_vmo), t1)"
    using that assms by (simp add: LoadFromNamespace_def LoadFromVmo_def)
  have m: "\<forall>e \<in> set (emitted t t1). \<not> is_vmar_map e"
    if "OpenVmo P default_Buffer namespc path executable t = (Returned (True, resource_vmo), t1)"
    using that
    by (auto simp: OpenVmo_def OpenVmo_executable_def Check_def Let_def
        split: if_splits prod.splits outcome.splits)
  show ?thesis
    using z l m by simp
qed

theorem LoadFromVmo_zero_size_noop_witness:
  "size_b \<lparr>vmo = 7, size_b = 0\<rparr> = 0 \<and>
   OpenVmo empty_file_platform default_Buffer nullptr ''data/empty.bin'' False [] =
     (Returned (True, \<lparr>vmo = 7, size_b = 0\<rparr>),
      [Ev_VmoFromFilename ''data/empty.bin'' True \<lparr>vmo = 7, size_b = 0\<rparr>]) \<and>
   LoadFromNamespace empty_file_platform nullptr ''data/empty.bin'' default_MappedResource
       False [] =
     (Returned (True, default_MappedResource),
      [Ev_VmoFromFilename ''data/empty.bin'' True \<lparr>vmo = 7, size_b = 0\<rparr>]) \<and>
   address_m default_MappedResource = nullptr \<and> size_m default_MappedResource = 0 \<and>
   LoadFromVmo empty_file_platform ''data/empty.bin'' \<lparr>vmo = 7, size_b = 0\<rparr>
       default_MappedResource False [] =
     ((True, \<lparr>address_m = nullptr, size_m = 0\<rparr>), [])"
proof -
  have z: "size_b \<lparr>vmo = 7, size_b = 0\<rparr> = 0"
    by simp
  have o: "OpenVmo empty_file_platform default_Buffer nullptr ''data/empty.bin'' False [] =
     (Returned (True, \<lparr>vmo = 7, size_b = 0\<rparr>),
      [Ev_VmoFromFilename ''data/empty.bin'' True \<lparr>vmo = 7, size_b = 0\<rparr>])"
    by (simp add: model_defs value_defs)
  have d: "address_m default_MappedResource = nullptr \<and> size_m default_MappedResource = 0"
    by (simp add: default_MappedResource_def)
  show ?thesis
    using LoadFromVmo_zero_size_noop [OF z, of empty_file_platform "''data/empty.bin''"
        default_MappedResource False "[]" nullptr
        "[Ev_VmoFromFilename ''data/empty.bin'' True \<lparr>vmo = 7, size_b = 0\<rparr>]"] o d
    by (simp add: default_MappedResource_def)
qed

text \<open>
  C6. After a successful \<open>LoadFromVmo\<close> on a buffer of non-zero size the address of the
  resource is non-null and its size is the size of the buffer; the call made exactly one
  mapping request, for the whole buffer, with the flags read when the executable flag is
  false and read plus execute when it is true, and never with the write flag. The
  address stored is the one the kernel returned: that it is non-null is the contract
  of the mapping call (a successful mapping is never at address 0), taken as hypothesis.
\<close>

theorem LoadFromVmo_success:
  assumes "size_b resource_vmo \<noteq> 0"
      and "LoadFromVmo P path resource_vmo resource executable t = ((True, resource'), t')"
      and "\<forall>t vo h off len fl. fst (vmar_map P t vo h off len fl) = ZX_OK \<longrightarrow>
             snd (vmar_map P t vo h off len fl) \<noteq> nullptr"
  shows "address_m resource' \<noteq> nullptr \<and> size_m resource' = size_b resource_vmo \<and>
         emitted t t' =
           [Ev_vmar_map 0 (vmo resource_vmo) 0 (size_b resource_vmo)
              (if executable then ZX_VM_PERM_READ OR ZX_VM_PERM_EXECUTE else ZX_VM_PERM_READ)
              ZX_OK (address_m resource')] \<and>
         filter requests_write (emitted t t') = []"
proof -
  let ?flags = "if executable then ZX_VM_PERM_READ OR ZX_VM_PERM_EXECUTE else ZX_VM_PERM_READ"
  obtain status addr where
    m: "vmar_map P t 0 (vmo resource_vmo) 0 (size_b resource_vmo) ?flags = (status, addr)"
    by (cases "vmar_map P t 0 (vmo resource_vmo) 0 (size_b resource_vmo) ?flags")
  have ok: "status = ZX_OK"
    using assms(1,2) m by (auto simp: LoadFromVmo_def Let_def split: if_splits)
  have r: "resource' = resource\<lparr>address_m := addr, size_m := size_b resource_vmo\<rparr>"
    and t': "t' = t @ [Ev_vmar_map 0 (vmo resource_vmo) 0 (size_b resource_vmo) ?flags
                        status addr]"
    using assms(1,2) m by (auto simp: LoadFromVmo_def Let_def split: if_splits)
  have "addr \<noteq> nullptr"
    using assms(3) m ok
    by (metis fst_conv snd_conv)
  moreover have "?flags AND ZX_VM_PERM_WRITE = 0"
    by (simp add: ZX_VM_PERM_READ_def ZX_VM_PERM_EXECUTE_def ZX_VM_PERM_WRITE_def)
  ultimately show ?thesis
    using ok r t' by simp
qed

theorem LoadFromVmo_success_witness:
  "size_b \<lparr>vmo = 7, size_b = 10\<rparr> \<noteq> 0 \<and>
   LoadFromVmo working_platform ''data/vm_snapshot.bin'' \<lparr>vmo = 7, size_b = 10\<rparr>
       default_MappedResource False [] =
     ((True, \<lparr>address_m = 0x1000, size_m = 10\<rparr>), [Ev_vmar_map 0 7 0 10 1 0 0x1000]) \<and>
   address_m \<lparr>address_m = 0x1000, size_m = 10\<rparr> \<noteq> nullptr \<and>
   filter requests_write [Ev_vmar_map 0 7 0 10 1 0 0x1000] = [] \<and>
   LoadFromVmo working_platform ''lib/app.so'' \<lparr>vmo = 8, size_b = 10\<rparr>
       default_MappedResource True [] =
     ((True, \<lparr>address_m = 0x1000, size_m = 10\<rparr>), [Ev_vmar_map 0 8 0 10 5 0 0x1000]) \<and>
   filter requests_write [Ev_vmar_map 0 8 0 10 5 0 0x1000] = []"
proof -
  have s: "size_b \<lparr>vmo = 7, size_b = 10\<rparr> \<noteq> 0"
    by simp
  have run: "LoadFromVmo working_platform ''data/vm_snapshot.bin'' \<lparr>vmo = 7, size_b = 10\<rparr>
       default_MappedResource False [] =
     ((True, \<lparr>address_m = 0x1000, size_m = 10\<rparr>), [Ev_vmar_map 0 7 0 10 1 0 0x1000])"
    by (simp add: model_defs value_defs)
  have c: "\<forall>t vo h off len fl. fst (vmar_map working_platform t vo h off len fl) = ZX_OK \<longrightarrow>
             snd (vmar_map working_platform t vo h off len fl) \<noteq> nullptr"
    by (simp add: working_platform_def nullptr_def)
  have s': "size_b \<lparr>vmo = 8, size_b = 10\<rparr> \<noteq> 0"
    by simp
  have run': "LoadFromVmo working_platform ''lib/app.so'' \<lparr>vmo = 8, size_b = 10\<rparr>
       default_MappedResource True [] =
     ((True, \<lparr>address_m = 0x1000, size_m = 10\<rparr>), [Ev_vmar_map 0 8 0 10 5 0 0x1000])"
    by (simp add: model_defs value_defs)
  show ?thesis
    using LoadFromVmo_success [OF s run c] LoadFromVmo_success [OF s' run' c] s run run'
    by simp
qed

text \<open>Whatever the outcome, no mapping request of \<open>LoadFromVmo\<close> has the write flag.\<close>

lemma LoadFromVmo_never_requests_write:
  "filter requests_write (emitted t (snd (LoadFromVmo P path b resource executable t))) = []"
  by (simp add: LoadFromVmo_def Let_def ZX_VM_PERM_READ_def ZX_VM_PERM_EXECUTE_def
        ZX_VM_PERM_WRITE_def split: prod.splits)

text \<open>
  C7. When the mapping request made by \<open>LoadFromVmo\<close> fails, the call returns false and
  the resource is as it was before the call: its address and its size are unchanged.
\<close>

theorem LoadFromVmo_map_failure:
  assumes "LoadFromVmo P path resource_vmo resource executable t = ((ok, resource'), t')"
      and "Ev_vmar_map vo h off len fl status addr \<in> set (emitted t t')"
      and "status \<noteq> ZX_OK"
  shows "ok = False \<and> resource' = resource \<and>
         address_m resource' = address_m resource \<and> size_m resource' = size_m resource"
  using assms
  by (auto simp: LoadFromVmo_def Let_def split: if_splits prod.splits)

theorem LoadFromVmo_map_failure_witness:
  "LoadFromVmo no_map_platform ''data/vm_snapshot.bin'' \<lparr>vmo = 7, size_b = 10\<rparr>
       default_MappedResource False [] =
     ((False, default_MappedResource),
      [Ev_vmar_map 0 7 0 10 1 (- 4) 0, Ev_FX_LOG ''Failed to map: %s'']) \<and>
   (- 4 :: zx_status_t) \<noteq> ZX_OK \<and>
   address_m default_MappedResource = nullptr \<and> size_m default_MappedResource = 0"
proof -
  let ?t' = "[Ev_vmar_map 0 7 0 10 1 (- 4) 0, Ev_FX_LOG ''Failed to map: %s'']"
  have run: "LoadFromVmo no_map_platform ''data/vm_snapshot.bin'' \<lparr>vmo = 7, size_b = 10\<rparr>
       default_MappedResource False [] = ((False, default_MappedResource), ?t')"
    by (simp add: model_defs value_defs)
  have ev: "Ev_vmar_map 0 7 0 10 1 (- 4) 0 \<in> set (emitted [] ?t')"
    by simp
  have st: "(- 4 :: zx_status_t) \<noteq> ZX_OK"
    by (simp add: ZX_OK_def)
  show ?thesis
    using LoadFromVmo_map_failure [OF run ev st] run st
    by (simp add: default_MappedResource_def)
qed

section \<open>ElfSnapshot: loading and destruction\<close>

text \<open>
  C3. Claim: destroying an \<open>ElfSnapshot\<close> calls \<open>Dart_UnloadELF\<close> once when a load
  succeeded and not at all when the instance is default-constructed or its load failed,
  and clears the handle afterwards. The destructor has no test of the handle and no
  assignment to it: destroying a default-constructed instance calls \<open>Dart_UnloadELF\<close>
  (with the null handle), and the handle of a loaded instance is still set after the
  destructor.
\<close>

theorem ElfSnapshot_dtor_counterexample:
  "snd (ElfSnapshot_dtor default_ElfSnapshot []) = [Ev_Dart_UnloadELF nullptr] \<and>
   length (filter is_Dart_UnloadELF (snd (ElfSnapshot_dtor default_ElfSnapshot []))) \<noteq> 0 \<and>
   fst (fst (Load_fd working_platform 4 default_ElfSnapshot [])) = True \<and>
   handle_m (fst (ElfSnapshot_dtor
      (snd (fst (Load_fd working_platform 4 default_ElfSnapshot [])))
      (snd (Load_fd working_platform 4 default_ElfSnapshot [])))) \<noteq> nullptr"
  by (simp add: model_defs value_defs)

text \<open>
  C3, as amended. Destroying an \<open>ElfSnapshot\<close> calls \<open>Dart_UnloadELF\<close> exactly once,
  with the stored loader handle whatever it is, and leaves the instance as it was.
  The stored handle is null in a default-constructed instance. \<open>Load(fd)\<close> stores the
  handle that \<open>Dart_LoadELF_Fd\<close> returned and returns whether it is non-null, so
  destroying the instance after it passes that very handle to \<open>Dart_UnloadELF\<close>. A load
  through one of the two upper layers that returns true has stored the handle returned
  by its call of \<open>Dart_LoadELF_Fd\<close>, the last call it made, and that handle is
  non-null; one that returns false on an instance whose handle was null leaves it
  null. So the routine gets the loader's handle after a successful load and the null
  handle for a default-constructed instance or one whose load failed.
\<close>

theorem ElfSnapshot_dtor_unloads_stored_handle:
  "ElfSnapshot_dtor this t = (this, t @ [Ev_Dart_UnloadELF (handle_m this)]) \<and>
   handle_m default_ElfSnapshot = nullptr \<and>
   (let r = Dart_LoadELF_Fd P t fd 0 (vm_data_m this) (vm_instrs_m this)
              (isolate_data_m this) (isolate_instrs_m this)
    in snd (fst (Load_fd P fd this t)) = r \<and>
       fst (fst (Load_fd P fd this t)) = (handle_m r \<noteq> nullptr) \<and>
       ElfSnapshot_dtor (snd (fst (Load_fd P fd this t))) t' =
         (r, t' @ [Ev_Dart_UnloadELF (handle_m r)])) \<and>
   (fst (fst (Load_dirfd P dirfd path this t)) \<longrightarrow>
      stores_loader_result P this (Load_dirfd P dirfd path this t) \<and>
      handle_m (snd (fst (Load_dirfd P dirfd path this t))) \<noteq> nullptr) \<and>
   (fst (fst (Load_namespc P namespc path this t)) \<longrightarrow>
      stores_loader_result P this (Load_namespc P namespc path this t) \<and>
      handle_m (snd (fst (Load_namespc P namespc path this t))) \<noteq> nullptr) \<and>
   (handle_m this = nullptr \<and> \<not> fst (fst (Load_dirfd P dirfd path this t)) \<longrightarrow>
      handle_m (snd (fst (Load_dirfd P dirfd path this t))) = nullptr) \<and>
   (handle_m this = nullptr \<and> \<not> fst (fst (Load_namespc P namespc path this t)) \<longrightarrow>
      handle_m (snd (fst (Load_namespc P namespc path this t))) = nullptr)"
proof -
  have f: "fst (fst (Load_fd P fd' this t1)) \<longrightarrow>
             stores_loader_result P this (Load_fd P fd' this t1) \<and>
             handle_m (snd (fst (Load_fd P fd' this t1))) \<noteq> nullptr" for fd' t1
    by (simp add: Load_fd_def Let_def stores_loader_result_def)
  have f0: "\<not> fst (fst (Load_fd P fd' this t1)) \<longrightarrow>
             handle_m (snd (fst (Load_fd P fd' this t1))) = nullptr" for fd' t1
    by (simp add: Load_fd_def Let_def)
  have d: "fst (fst (Load_dirfd P dirfd' path this t1)) \<longrightarrow>
             stores_loader_result P this (Load_dirfd P dirfd' path this t1) \<and>
             handle_m (snd (fst (Load_dirfd P dirfd' path this t1))) \<noteq> nullptr" for dirfd' t1
    using f by (simp add: Load_dirfd_def split: prod.splits)
  have d0: "handle_m this = nullptr \<and> \<not> fst (fst (Load_dirfd P dirfd' path this t1)) \<longrightarrow>
             handle_m (snd (fst (Load_dirfd P dirfd' path this t1))) = nullptr" for dirfd' t1
    using f0 by (simp add: Load_dirfd_def split: prod.splits)
  have n: "fst (fst (Load_namespc P namespc path this t)) \<longrightarrow>
             stores_loader_result P this (Load_namespc P namespc path this t) \<and>
             handle_m (snd (fst (Load_namespc P namespc path this t))) \<noteq> nullptr"
    using d by (simp add: Load_namespc_def Let_def)
  have n0: "handle_m this = nullptr \<and> \<not> fst (fst (Load_namespc P namespc path this t)) \<longrightarrow>
             handle_m (snd (fst (Load_namespc P namespc path this t))) = nullptr"
    using d0 by (simp add: Load_namespc_def Let_def)
  have b: "(let r = Dart_LoadELF_Fd P t fd 0 (vm_data_m this) (vm_instrs_m this)
              (isolate_data_m this) (isolate_instrs_m this)
    in snd (fst (Load_fd P fd this t)) = r \<and>
       fst (fst (Load_fd P fd this t)) = (handle_m r \<noteq> nullptr) \<and>
       ElfSnapshot_dtor (snd (fst (Load_fd P fd this t))) t' =
         (r, t' @ [Ev_Dart_UnloadELF (handle_m r)]))"
    by (simp add: Load_fd_def Let_def ElfSnapshot_dtor_def)
  have a: "ElfSnapshot_dtor this t = (this, t @ [Ev_Dart_UnloadELF (handle_m this)])"
    by (simp add: ElfSnapshot_dtor_def)
  have z: "handle_m default_ElfSnapshot = nullptr"
    by (simp add: default_ElfSnapshot_def)
  show ?thesis
    using a z b d d0 n n0 by blast
qed

theorem ElfSnapshot_dtor_unloads_stored_handle_witness:
  "handle_m default_ElfSnapshot = nullptr \<and>
   Load_namespc working_platform 0x10 ''lib/app.so'' default_ElfSnapshot [] =
     ((True, \<lparr>handle_m = 0x5000, vm_data_m = 0x6000, vm_instrs_m = 0x7000,
              isolate_data_m = 0x8000, isolate_instrs_m = 0x9000\<rparr>),
      [Ev_fdio_ns_opendir 0x10 3,
       Ev_fdio_open_fd_at 3 ''lib/app.so'' 9 0 4,
       Ev_Dart_LoadELF_Fd 4 0
         \<lparr>handle_m = 0x5000, vm_data_m = 0x6000, vm_instrs_m = 0x7000,
          isolate_data_m = 0x8000, isolate_instrs_m = 0x9000\<rparr>]) \<and>
   stores_loader_result working_platform default_ElfSnapshot
     (Load_namespc working_platform 0x10 ''lib/app.so'' default_ElfSnapshot []) \<and>
   handle_m (Dart_LoadELF_Fd working_platform
       [Ev_fdio_ns_opendir 0x10 3, Ev_fdio_open_fd_at 3 ''lib/app.so'' 9 0 4] 4 0
       nullptr nullptr nullptr nullptr) = 0x5000 \<and>
   snd (ElfSnapshot_dtor
      (snd (fst (Load_namespc working_platform 0x10 ''lib/app.so'' default_ElfSnapshot [])))
      []) = [Ev_Dart_UnloadELF 0x5000] \<and>
   Load_namespc corrupt_elf_platform 0x10 ''lib/app.so'' default_ElfSnapshot [] =
     ((False, default_ElfSnapshot),
      [Ev_fdio_ns_opendir 0x10 3,
       Ev_fdio_open_fd_at 3 ''lib/app.so'' 9 0 4,
       Ev_Dart_LoadELF_Fd 4 0 default_ElfSnapshot,
       Ev_FX_LOG ''Failed load ELF: %s'']) \<and>
   snd (ElfSnapshot_dtor
      (snd (fst (Load_namespc corrupt_elf_platform 0x10 ''lib/app.so'' default_ElfSnapshot [])))
      []) = [Ev_Dart_UnloadELF nullptr]"
proof -
  have h: "handle_m default_ElfSnapshot = nullptr"
    by (simp add: default_ElfSnapshot_def)
  have ok: "Load_namespc working_platform 0x10 ''lib/app.so'' default_ElfSnapshot [] =
     ((True, \<lparr>handle_m = 0x5000, vm_data_m = 0x6000, vm_instrs_m = 0x7000,
              isolate_data_m = 0x8000, isolate_instrs_m = 0x9000\<rparr>),
      [Ev_fdio_ns_opendir 0x10 3,
       Ev_fdio_open_fd_at 3 ''lib/app.so'' 9 0 4,
       Ev_Dart_LoadELF_Fd 4 0
         \<lparr>handle_m = 0x5000, vm_data_m = 0x6000, vm_instrs_m = 0x7000,
          isolate_data_m = 0x8000, isolate_instrs_m = 0x9000\<rparr>])"
    by (simp add: model_defs value_defs)
  have bad: "Load_namespc corrupt_elf_platform 0x10 ''lib/app.so'' default_ElfSnapshot [] =
     ((False, default_ElfSnapshot),
      [Ev_fdio_ns_opendir 0x10 3,
       Ev_fdio_open_fd_at 3 ''lib/app.so'' 9 0 4,
       Ev_Dart_LoadELF_Fd 4 0 default_ElfSnapshot,
       Ev_FX_LOG ''Failed load ELF: %s''])"
    by (simp add: model_defs value_defs)
  have l: "handle_m (Dart_LoadELF_Fd working_platform
       [Ev_fdio_ns_opendir 0x10 3, Ev_fdio_open_fd_at 3 ''lib/app.so'' 9 0 4] 4 0
       nullptr nullptr nullptr nullptr) = 0x5000"
    by (simp add: working_platform_def)
  have s: "stores_loader_result working_platform default_ElfSnapshot
     (Load_namespc working_platform 0x10 ''lib/app.so'' default_ElfSnapshot [])"
    using ElfSnapshot_dtor_unloads_stored_handle
            [of default_ElfSnapshot "[]" working_platform 4 "[]" 3 "''lib/app.so''" "0x10"] ok
    by simp
  have n: "handle_m (snd (fst (Load_namespc corrupt_elf_platform 0x10 ''lib/app.so''
             default_ElfSnapshot []))) = nullptr"
    using ElfSnapshot_dtor_unloads_stored_handle
            [of default_ElfSnapshot "[]" corrupt_elf_platform 4 "[]" 3 "''lib/app.so''" "0x10"]
          h bad
    by simp
  show ?thesis
    using h ok bad l s n by (simp add: ElfSnapshot_dtor_def)
qed

text \<open>
  C8. The three layers of \<open>ElfSnapshot::Load\<close> delegate downwards. Without a namespace
  the top layer is the middle layer at \<open>AT_FDCWD\<close>; with a namespace whose directory
  opens, it is the middle layer at that descriptor, run after the open. When the file
  opens below the descriptor, the middle layer is the bottom layer at the file's
  descriptor, run after the open. So when the path resolves to the file, the three
  layers return the same result and leave the same loader handle and region pointers
  in the instance, and the calls of each lower layer are those of the layer above it
  without the resolution that layer did first.
\<close>

theorem Load_layers_agree:
  "Load_namespc P nullptr path this t = Load_dirfd P AT_FDCWD path this t \<and>
   (namespc \<noteq> nullptr \<and> root_dir = fdio_ns_opendir P t namespc \<and> \<not> sint root_dir < 0 \<and>
    t1 = t @ [Ev_fdio_ns_opendir namespc root_dir] \<longrightarrow>
      Load_namespc P namespc path this t = Load_dirfd P root_dir path this t1 \<and>
      emitted t (snd (Load_namespc P namespc path this t)) =
        Ev_fdio_ns_opendir namespc root_dir #
        emitted t1 (snd (Load_dirfd P root_dir path this t1))) \<and>
   (rights = OPEN_RIGHT_READABLE OR OPEN_RIGHT_EXECUTABLE \<and>
    fdio_open_fd_at P t1 dirfd (c_str path) rights = (ZX_OK, fd) \<and> \<not> sint fd < 0 \<and>
    t2 = t1 @ [Ev_fdio_open_fd_at dirfd (c_str path) rights ZX_OK fd] \<longrightarrow>
      Load_dirfd P dirfd path this t1 = Load_fd P fd this t2 \<and>
      emitted t1 (snd (Load_dirfd P dirfd path this t1)) =
        Ev_fdio_open_fd_at dirfd (c_str path) rights ZX_OK fd #
        emitted t2 (snd (Load_fd P fd this t2)))"
proof -
  have top0: "Load_namespc P nullptr path this t = Load_dirfd P AT_FDCWD path this t"
    by (simp add: Load_namespc_def)
  have top: "Load_namespc P namespc path this t = Load_dirfd P root_dir path this t1 \<and>
      emitted t (snd (Load_namespc P namespc path this t)) =
        Ev_fdio_ns_opendir namespc root_dir #
        emitted t1 (snd (Load_dirfd P root_dir path this t1))"
    if "namespc \<noteq> nullptr" "root_dir = fdio_ns_opendir P t namespc" "\<not> sint root_dir < 0"
       "t1 = t @ [Ev_fdio_ns_opendir namespc root_dir]"
  proof -
    have eq: "Load_namespc P namespc path this t = Load_dirfd P root_dir path this t1"
      using that by (simp add: Load_namespc_def Let_def)
    obtain es where es: "snd (Load_dirfd P root_dir path this t1) = t1 @ es"
      using Load_dirfd_extends by blast
    have low: "emitted t1 (snd (Load_dirfd P root_dir path this t1)) = es"
      by (simp add: es)
    have "emitted t (snd (Load_dirfd P root_dir path this t1)) =
            Ev_fdio_ns_opendir namespc root_dir # es"
      unfolding es by (simp add: that(4))
    then show ?thesis
      by (simp add: eq low)
  qed
  have mid: "Load_dirfd P dirfd path this t1 = Load_fd P fd this t2 \<and>
      emitted t1 (snd (Load_dirfd P dirfd path this t1)) =
        Ev_fdio_open_fd_at dirfd (c_str path) rights ZX_OK fd #
        emitted t2 (snd (Load_fd P fd this t2))"
    if "rights = OPEN_RIGHT_READABLE OR OPEN_RIGHT_EXECUTABLE"
       "fdio_open_fd_at P t1 dirfd (c_str path) rights = (ZX_OK, fd)" "\<not> sint fd < 0"
       "t2 = t1 @ [Ev_fdio_open_fd_at dirfd (c_str path) rights ZX_OK fd]"
  proof -
    have eq: "Load_dirfd P dirfd path this t1 = Load_fd P fd this t2"
      using that by (simp add: Load_dirfd_def OpenFdExec_def Let_def)
    obtain es where es: "snd (Load_fd P fd this t2) = t2 @ es"
      using Load_fd_extends by blast
    have low: "emitted t2 (snd (Load_fd P fd this t2)) = es"
      by (simp add: es)
    have "emitted t1 (snd (Load_fd P fd this t2)) =
            Ev_fdio_open_fd_at dirfd (c_str path) rights ZX_OK fd # es"
      unfolding es by (simp add: that(4))
    then show ?thesis
      by (simp add: eq low)
  qed
  show ?thesis
    using top0 top mid by blast
qed

theorem Load_layers_agree_witness:
  "(0x10 :: ptr) \<noteq> nullptr \<and> \<not> sint (3 :: c_int) < 0 \<and> \<not> sint (4 :: c_int) < 0 \<and>
   fdio_ns_opendir working_platform [] 0x10 = 3 \<and>
   fdio_open_fd_at working_platform [Ev_fdio_ns_opendir 0x10 3] 3 (c_str ''lib/app.so'')
       (OPEN_RIGHT_READABLE OR OPEN_RIGHT_EXECUTABLE) = (ZX_OK, 4) \<and>
   Load_namespc working_platform 0x10 ''lib/app.so'' default_ElfSnapshot [] =
     Load_dirfd working_platform 3 ''lib/app.so'' default_ElfSnapshot
       [Ev_fdio_ns_opendir 0x10 3] \<and>
   Load_dirfd working_platform 3 ''lib/app.so'' default_ElfSnapshot
       [Ev_fdio_ns_opendir 0x10 3] =
     Load_fd working_platform 4 default_ElfSnapshot
       [Ev_fdio_ns_opendir 0x10 3, Ev_fdio_open_fd_at 3 ''lib/app.so'' 9 0 4] \<and>
   Load_fd working_platform 4 default_ElfSnapshot
       [Ev_fdio_ns_opendir 0x10 3, Ev_fdio_open_fd_at 3 ''lib/app.so'' 9 0 4] =
     ((True, \<lparr>handle_m = 0x5000, vm_data_m = 0x6000, vm_instrs_m = 0x7000,
              isolate_data_m = 0x8000, isolate_instrs_m = 0x9000\<rparr>),
      [Ev_fdio_ns_opendir 0x10 3, Ev_fdio_open_fd_at 3 ''lib/app.so'' 9 0 4,
       Ev_Dart_LoadELF_Fd 4 0
         \<lparr>handle_m = 0x5000, vm_data_m = 0x6000, vm_instrs_m = 0x7000,
          isolate_data_m = 0x8000, isolate_instrs_m = 0x9000\<rparr>])"
proof -
  have a: "(0x10 :: ptr) \<noteq> nullptr \<and> \<not> sint (3 :: c_int) < 0 \<and> \<not> sint (4 :: c_int) < 0"
    by (simp add: nullptr_def)
  have d: "fdio_ns_opendir working_platform [] 0x10 = 3"
    by (simp add: working_platform_def)
  have o: "fdio_open_fd_at working_platform [Ev_fdio_ns_opendir 0x10 3] 3
             (c_str ''lib/app.so'') (OPEN_RIGHT_READABLE OR OPEN_RIGHT_EXECUTABLE) = (ZX_OK, 4)"
    by (simp add: working_platform_def ZX_OK_def)
  have r: "OPEN_RIGHT_READABLE OR OPEN_RIGHT_EXECUTABLE = (9 :: 32 word)"
    by (simp add: OPEN_RIGHT_READABLE_def OPEN_RIGHT_EXECUTABLE_def)
  have c: "c_str ''lib/app.so'' = ''lib/app.so''"
    by (simp add: c_str_def)
  have bottom: "Load_fd working_platform 4 default_ElfSnapshot
       [Ev_fdio_ns_opendir 0x10 3, Ev_fdio_open_fd_at 3 ''lib/app.so'' 9 0 4] =
     ((True, \<lparr>handle_m = 0x5000, vm_data_m = 0x6000, vm_instrs_m = 0x7000,
              isolate_data_m = 0x8000, isolate_instrs_m = 0x9000\<rparr>),
      [Ev_fdio_ns_opendir 0x10 3, Ev_fdio_open_fd_at 3 ''lib/app.so'' 9 0 4,
       Ev_Dart_LoadELF_Fd 4 0
         \<lparr>handle_m = 0x5000, vm_data_m = 0x6000, vm_instrs_m = 0x7000,
          isolate_data_m = 0x8000, isolate_instrs_m = 0x9000\<rparr>])"
    by (simp add: Load_fd_def Let_def value_defs)
  show ?thesis
    using Load_layers_agree [of working_platform "''lib/app.so''" default_ElfSnapshot "[]"
        "0x10" 3 "[Ev_fdio_ns_opendir 0x10 3]" 9 3 4
        "[Ev_fdio_ns_opendir 0x10 3, Ev_fdio_open_fd_at 3 ''lib/app.so'' 9 0 4]"]
      a d o r c bottom
    by (simp add: ZX_OK_def)
qed

text \<open>
  C10. Claim: \<open>Load(fd)\<close> on an instance whose previous load succeeded overwrites the
  stored handle and the four region pointers with the results of the new load, and
  does not unload the old handle. The code assigns only the handle; the four region
  members are handed to the loader as out-parameters. When the loader fails without
  writing them, as on \<open>corrupt_elf_platform\<close>, the instance ends with the null handle
  next to the four region pointers of the previous image: they are not overwritten.
\<close>

theorem Load_fd_reload_counterexample:
  "Load_fd working_platform 4 default_ElfSnapshot [] =
     ((True, \<lparr>handle_m = 0x5000, vm_data_m = 0x6000, vm_instrs_m = 0x7000,
              isolate_data_m = 0x8000, isolate_instrs_m = 0x9000\<rparr>),
      [Ev_Dart_LoadELF_Fd 4 0
         \<lparr>handle_m = 0x5000, vm_data_m = 0x6000, vm_instrs_m = 0x7000,
          isolate_data_m = 0x8000, isolate_instrs_m = 0x9000\<rparr>]) \<and>
   fst (Load_fd corrupt_elf_platform 5
       \<lparr>handle_m = 0x5000, vm_data_m = 0x6000, vm_instrs_m = 0x7000,
        isolate_data_m = 0x8000, isolate_instrs_m = 0x9000\<rparr>
       [Ev_Dart_LoadELF_Fd 4 0
         \<lparr>handle_m = 0x5000, vm_data_m = 0x6000, vm_instrs_m = 0x7000,
          isolate_data_m = 0x8000, isolate_instrs_m = 0x9000\<rparr>]) =
     (False, \<lparr>handle_m = nullptr, vm_data_m = 0x6000, vm_instrs_m = 0x7000,
              isolate_data_m = 0x8000, isolate_instrs_m = 0x9000\<rparr>)"
  by (simp add: Load_fd_def Let_def value_defs)

text \<open>
  C10, as amended. \<open>Load(fd)\<close>, on any instance and so on one whose previous load
  succeeded, overwrites the stored handle unconditionally with the handle the loader
  returned, null when the load failed, and returns whether it is non-null; the handle
  stored before has no influence on the call. The four region members are not assigned
  by the code: each holds afterwards what the loader left behind its out-pointer, so
  the value of before wherever the loader left it. The only external call is
  \<open>Dart_LoadELF_Fd\<close>: no handle, so not the one stored before, is passed to
  \<open>Dart_UnloadELF\<close>.
\<close>

theorem Load_fd_stores_loader_output:
  "(let r = Dart_LoadELF_Fd P t fd 0 (vm_data_m this) (vm_instrs_m this)
              (isolate_data_m this) (isolate_instrs_m this)
    in Load_fd P fd this t =
         ((handle_m r \<noteq> nullptr, r),
          t @ Ev_Dart_LoadELF_Fd fd 0 r #
            (if handle_m r = nullptr then [Ev_FX_LOG ''Failed load ELF: %s''] else [])) \<and>
       handle_m (snd (fst (Load_fd P fd this t))) = handle_m r \<and>
       (vm_data_m r = vm_data_m this \<longrightarrow>
          vm_data_m (snd (fst (Load_fd P fd this t))) = vm_data_m this) \<and>
       (vm_instrs_m r = vm_instrs_m this \<longrightarrow>
          vm_instrs_m (snd (fst (Load_fd P fd this t))) = vm_instrs_m this) \<and>
       (isolate_data_m r = isolate_data_m this \<longrightarrow>
          isolate_data_m (snd (fst (Load_fd P fd this t))) = isolate_data_m this) \<and>
       (isolate_instrs_m r = isolate_instrs_m this \<longrightarrow>
          isolate_instrs_m (snd (fst (Load_fd P fd this t))) = isolate_instrs_m this)) \<and>
   Load_fd P fd (this\<lparr>handle_m := h\<rparr>) t = Load_fd P fd this t \<and>
   filter is_Dart_UnloadELF (emitted t (snd (Load_fd P fd this t))) = [] \<and>
   Ev_Dart_UnloadELF (handle_m this) \<notin> set (emitted t (snd (Load_fd P fd this t)))"
  by (simp add: Load_fd_def Let_def)

theorem Load_fd_stores_loader_output_witness:
  "vm_data_m (Dart_LoadELF_Fd corrupt_elf_platform [] 5 0 0x6000 0x7000 0x8000 0x9000) =
     0x6000 \<and>
   Load_fd corrupt_elf_platform 5
       \<lparr>handle_m = 0x5000, vm_data_m = 0x6000, vm_instrs_m = 0x7000,
        isolate_data_m = 0x8000, isolate_instrs_m = 0x9000\<rparr> [] =
     ((False, \<lparr>handle_m = nullptr, vm_data_m = 0x6000, vm_instrs_m = 0x7000,
               isolate_data_m = 0x8000, isolate_instrs_m = 0x9000\<rparr>),
      [Ev_Dart_LoadELF_Fd 5 0
         \<lparr>handle_m = nullptr, vm_data_m = 0x6000, vm_instrs_m = 0x7000,
          isolate_data_m = 0x8000, isolate_instrs_m = 0x9000\<rparr>,
       Ev_FX_LOG ''Failed load ELF: %s'']) \<and>
   Load_fd working_platform 5
       \<lparr>handle_m = 0x4000, vm_data_m = 1, vm_instrs_m = 2,
        isolate_data_m = 3, isolate_instrs_m = 4\<rparr> [] =
     ((True, \<lparr>handle_m = 0x5000, vm_data_m = 0x6000, vm_instrs_m = 0x7000,
              isolate_data_m = 0x8000, isolate_instrs_m = 0x9000\<rparr>),
      [Ev_Dart_LoadELF_Fd 5 0
         \<lparr>handle_m = 0x5000, vm_data_m = 0x6000, vm_instrs_m = 0x7000,
          isolate_data_m = 0x8000, isolate_instrs_m = 0x9000\<rparr>])"
proof -
  have k: "vm_data_m (Dart_LoadELF_Fd corrupt_elf_platform [] 5 0 0x6000 0x7000 0x8000 0x9000)
             = 0x6000"
    by (simp add: corrupt_elf_platform_def working_platform_def)
  show ?thesis
    using k
      Load_fd_stores_loader_output [of corrupt_elf_platform "[]" 5
        "\<lparr>handle_m = 0x5000, vm_data_m = 0x6000, vm_instrs_m = 0x7000,
          isolate_data_m = 0x8000, isolate_instrs_m = 0x9000\<rparr>" "0x5000"]
      Load_fd_stores_loader_output [of working_platform "[]" 5
        "\<lparr>handle_m = 0x4000, vm_data_m = 1, vm_instrs_m = 2,
          isolate_data_m = 3, isolate_instrs_m = 4\<rparr>" "0x4000"]
    by (simp add: Let_def value_defs)
qed

end
